theory Spec2Isabelle
  imports Complex_Main "HOL-Library.AList"
begin

section \<open>Risk manager: data model\<close>

text \<open>
  Embedding of \<^verbatim>\<open>src/src/risk_manager.py\<close>. Python floats are read as real numbers:
  rounding, infinities and NaN are outside the model. Where Python raises, the model
  returns \<open>Inl\<close> of the exception; where NumPy would produce \<open>nan\<close> or \<open>inf\<close>
  (mean of an empty array, element-wise division by zero) the model returns
  \<open>Inl NonFinite\<close>, since such a result has no real value.
\<close>

datatype error = ValueError | ZeroDivisionError | IndexError | NonFinite

datatype RiskLevel = LOW | MEDIUM | HIGH | CRITICAL

fun risk_level_value :: "RiskLevel \<Rightarrow> string" where
  "risk_level_value LOW = ''LOW''"
| "risk_level_value MEDIUM = ''MEDIUM''"
| "risk_level_value HIGH = ''HIGH''"
| "risk_level_value CRITICAL = ''CRITICAL''"

record Position =
  symbol :: string
  quantity :: real
  entry_price :: real
  current_price :: real
  timestamp :: nat

definition market_value :: "Position \<Rightarrow> real" where
  "market_value pos = quantity pos * current_price pos"

definition pnl :: "Position \<Rightarrow> real" where
  "pnl pos = (current_price pos - entry_price pos) * quantity pos"

definition pnl_percent :: "Position \<Rightarrow> error + real" where
  "pnl_percent pos =
     (if entry_price pos = 0 then Inl ZeroDivisionError
      else Inr ((current_price pos / entry_price pos - 1) * 100))"

record RiskMetrics =
  portfolio_value :: real
  total_exposure :: real
  var_95 :: real
  var_99 :: real
  expected_shortfall :: real
  max_drawdown :: real
  sharpe_ratio :: real
  volatility :: real
  beta :: real
  risk_level :: RiskLevel

text \<open>
  The manager object. The positions dictionary is an association list with distinct
  keys in insertion order, as a Python dict is; \<open>AList.update\<close> overwrites a key in
  place or appends it, \<open>AList.delete\<close> removes it.
\<close>

record RiskManager =
  initial_capital :: real
  current_capital :: real
  max_position_size :: real
  max_portfolio_risk :: real
  stop_loss_percent :: real
  positions :: "(string \<times> Position) list"
  equity_curve :: "real list"
  returns_history :: "real list"

definition init_manager :: "real \<Rightarrow> real \<Rightarrow> real \<Rightarrow> real \<Rightarrow> RiskManager" where
  "init_manager capital mps mpr slp =
     \<lparr>initial_capital = capital, current_capital = capital, max_position_size = mps,
      max_portfolio_risk = mpr, stop_loss_percent = slp, positions = [],
      equity_curve = [capital], returns_history = []\<rparr>"

section \<open>Numeric helpers\<close>

definition bind_result :: "error + 'a \<Rightarrow> ('a \<Rightarrow> error + 'b) \<Rightarrow> error + 'b" where
  "bind_result r f = (case r of Inl e \<Rightarrow> Inl e | Inr v \<Rightarrow> f v)"

text \<open>Python's \<^verbatim>\<open>int(x)\<close> on a float truncates towards zero.\<close>

definition py_int :: "real \<Rightarrow> int" where
  "py_int x = (if 0 \<le> x then \<lfloor>x\<rfloor> else \<lceil>x\<rceil>)"

definition mean_list :: "real list \<Rightarrow> real" where
  "mean_list xs = sum_list xs / real (length xs)"

text \<open>\<^verbatim>\<open>np.mean\<close>: \<open>nan\<close> on an empty array.\<close>

definition np_mean :: "real list \<Rightarrow> error + real" where
  "np_mean xs = (if xs = [] then Inl NonFinite else Inr (mean_list xs))"

text \<open>\<^verbatim>\<open>np.std\<close>: the population standard deviation; \<open>nan\<close> on an empty array.\<close>

definition std_list :: "real list \<Rightarrow> real" where
  "std_list xs = sqrt (mean_list (map (\<lambda>x. (x - mean_list xs)\<^sup>2) xs))"

definition np_std :: "real list \<Rightarrow> error + real" where
  "np_std xs = (if xs = [] then Inl NonFinite else Inr (std_list xs))"

text \<open>
  \<^verbatim>\<open>np.percentile(a, q)\<close> with NumPy's default linear interpolation: \<open>q\<close> outside
  \<open>[0, 100]\<close> raises ValueError; an empty array gives \<open>nan\<close>; otherwise the virtual
  index \<open>q / 100 * (n - 1)\<close> into the sorted array is interpolated between its two
  neighbours.
\<close>

definition lerp_sorted :: "real list \<Rightarrow> real \<Rightarrow> real" where
  "lerp_sorted s idx =
     (let lo = nat \<lfloor>idx\<rfloor>;
          hi = min (lo + 1) (length s - 1);
          g = idx - real lo
      in s ! lo + g * (s ! hi - s ! lo))"

definition percentile :: "real list \<Rightarrow> real \<Rightarrow> error + real" where
  "percentile a q =
     (if q < 0 \<or> 100 < q then Inl ValueError
      else if a = [] then Inl NonFinite
      else Inr (lerp_sorted (sort a) (q / 100 * real (length a - 1))))"

section \<open>Position sizing\<close>

definition calculate_position_size ::
  "RiskManager \<Rightarrow> real \<Rightarrow> real \<Rightarrow> real option \<Rightarrow> error + int" where
  "calculate_position_size s price vol risk_per_trade =
     (let rpt = (case risk_per_trade of None \<Rightarrow> max_portfolio_risk s | Some r \<Rightarrow> r);
          max_position_value = current_capital s * max_position_size s;
          risk_amount = current_capital s * rpt;
          stop_distance = price * stop_loss_percent s;
          risk_based_size = (if stop_distance > 0 then risk_amount / stop_distance else 0)
      in if price = 0 then Inl ZeroDivisionError
         else Inr (min (py_int (max_position_value / price)) (py_int risk_based_size)))"

section \<open>Statistics\<close>

definition calculate_var :: "real list \<Rightarrow> real \<Rightarrow> string \<Rightarrow> error + real" where
  "calculate_var returns confidence_level method =
     (if method = ''historical'' then percentile returns ((1 - confidence_level) * 100)
      else if method = ''parametric'' then
        bind_result (np_mean returns) (\<lambda>mean.
        bind_result (np_std returns) (\<lambda>std.
          let z_score = (if confidence_level = 0.95 then - 1.645 else - 2.326)
          in Inr (mean + z_score * std)))
      else Inl ValueError)"

definition calculate_expected_shortfall :: "real list \<Rightarrow> real \<Rightarrow> error + real" where
  "calculate_expected_shortfall returns confidence_level =
     bind_result (calculate_var returns confidence_level ''historical'') (\<lambda>var.
       np_mean (filter (\<lambda>r. r \<le> var) returns))"

text \<open>
  The loop of \<^verbatim>\<open>calculate_max_drawdown\<close>, with the running peak and the running
  maximum as accumulators. The quotient raises ZeroDivisionError when the peak is 0.
\<close>

fun drawdown_loop :: "real list \<Rightarrow> real \<Rightarrow> real \<Rightarrow> error + real" where
  "drawdown_loop [] peak max_dd = Inr max_dd"
| "drawdown_loop (v # rest) peak max_dd =
     (let peak' = (if v > peak then v else peak)
      in if peak' = 0 then Inl ZeroDivisionError
         else (let dd = (peak' - v) / peak'
               in drawdown_loop rest peak' (if dd > max_dd then dd else max_dd)))"

definition calculate_max_drawdown :: "real list \<Rightarrow> error + real" where
  "calculate_max_drawdown curve =
     (case curve of [] \<Rightarrow> Inl IndexError | first # _ \<Rightarrow> drawdown_loop curve first 0)"

definition calculate_sharpe_ratio :: "real list \<Rightarrow> real \<Rightarrow> real" where
  "calculate_sharpe_ratio returns risk_free_rate =
     (if length returns = 0 then 0
      else (let excess_returns = map (\<lambda>r. r - risk_free_rate / 252) returns
            in if std_list excess_returns = 0 then 0
               else sqrt 252 * mean_list excess_returns / std_list excess_returns))"

definition check_stop_loss :: "Position \<Rightarrow> real \<Rightarrow> bool" where
  "check_stop_loss pos stop_loss_price =
     (if quantity pos > 0 then current_price pos \<le> stop_loss_price
      else current_price pos \<ge> stop_loss_price)"

section \<open>Portfolio metrics\<close>

definition determine_risk_level :: "real \<Rightarrow> real \<Rightarrow> real \<Rightarrow> RiskLevel" where
  "determine_risk_level max_dd var95 pv =
     (let var_percent = (if pv > 0 then \<bar>var95 / pv\<bar> else 0)
      in if max_dd > 0.25 \<or> var_percent > 0.10 then CRITICAL
         else if max_dd > 0.15 \<or> var_percent > 0.05 then HIGH
         else if max_dd > 0.08 \<or> var_percent > 0.03 then MEDIUM
         else LOW)"

text \<open>
  \<^verbatim>\<open>np.diff(curve) / curve[:-1]\<close>: the relative change between consecutive entries;
  a zero divisor makes NumPy produce \<open>inf\<close> or \<open>nan\<close>.
\<close>

fun period_returns :: "real list \<Rightarrow> error + real list" where
  "period_returns (a # b # rest) =
     (if a = 0 then Inl NonFinite
      else bind_result (period_returns (b # rest)) (\<lambda>rs. Inr ((b - a) / a # rs)))"
| "period_returns _ = Inr []"

definition calculate_portfolio_metrics :: "RiskManager \<Rightarrow> error + RiskMetrics" where
  "calculate_portfolio_metrics s =
     (let pv = sum_list (map (\<lambda>kv. market_value (snd kv)) (positions s));
          exposure = sum_list (map (\<lambda>kv. \<bar>market_value (snd kv)\<bar>) (positions s))
      in
      bind_result (if length (equity_curve s) > 1 then period_returns (equity_curve s)
                   else Inr [0]) (\<lambda>returns.
      bind_result (if length returns > 0
                   then bind_result (calculate_var returns 0.95 ''historical'') (\<lambda>v. Inr (v * pv))
                   else Inr 0) (\<lambda>v95.
      bind_result (if length returns > 0
                   then bind_result (calculate_var returns 0.99 ''historical'') (\<lambda>v. Inr (v * pv))
                   else Inr 0) (\<lambda>v99.
      bind_result (if length returns > 0
                   then bind_result (calculate_expected_shortfall returns 0.95) (\<lambda>v. Inr (v * pv))
                   else Inr 0) (\<lambda>es.
      bind_result (calculate_max_drawdown (equity_curve s)) (\<lambda>max_dd.
        let sharpe = calculate_sharpe_ratio returns 0.02;
            vol = (if length returns > 0 then std_list returns * sqrt 252 else 0)
        in Inr \<lparr>portfolio_value = pv, total_exposure = exposure, var_95 = v95,
                 var_99 = v99, expected_shortfall = es, max_drawdown = max_dd,
                 sharpe_ratio = sharpe, volatility = vol, beta = 1,
                 risk_level = determine_risk_level max_dd v95 pv\<rparr>))))))"

section \<open>Ledger operations\<close>

text \<open>\<^verbatim>\<open>datetime.now()\<close> is passed in as the argument \<open>now\<close>.\<close>

definition add_position :: "string \<Rightarrow> real \<Rightarrow> real \<Rightarrow> nat \<Rightarrow> RiskManager \<Rightarrow> RiskManager" where
  "add_position symb qty price now s =
     s\<lparr>positions :=
         AList.update symb
           \<lparr>symbol = symb, quantity = qty, entry_price = price, current_price = price,
            timestamp = now\<rparr> (positions s),
       current_capital := current_capital s - qty * price\<rparr>"

definition update_position_price :: "string \<Rightarrow> real \<Rightarrow> RiskManager \<Rightarrow> RiskManager" where
  "update_position_price symb new_price s =
     (if map_of (positions s) symb \<noteq> None
      then s\<lparr>positions :=
               AList.map_entry symb (\<lambda>pos. pos\<lparr>current_price := new_price\<rparr>) (positions s)\<rparr>
      else s)"

text \<open>
  \<^verbatim>\<open>close_position\<close> returns its result together with the manager it leaves behind.
  The quotient by the initial capital raises ZeroDivisionError after the capital has
  been credited and before the position is removed.
\<close>

definition close_position :: "string \<Rightarrow> RiskManager \<Rightarrow> (error + real) \<times> RiskManager" where
  "close_position symb s =
     (case map_of (positions s) symb of
        None \<Rightarrow> (Inr 0, s)
      | Some pos \<Rightarrow>
          (let s1 = s\<lparr>current_capital := current_capital s + market_value pos\<rparr>;
               realized = pnl pos
           in if initial_capital s1 = 0 then (Inl ZeroDivisionError, s1)
              else (Inr realized,
                    s1\<lparr>returns_history := returns_history s1 @ [realized / initial_capital s1],
                       positions := AList.delete symb (positions s1)\<rparr>)))"

datatype summary_value = Float real | Count nat | Text string

definition get_portfolio_summary :: "RiskManager \<Rightarrow> error + (string \<times> summary_value) list" where
  "get_portfolio_summary s =
     bind_result (calculate_portfolio_metrics s) (\<lambda>metrics.
       Inr [(''capital'', Float (current_capital s)),
            (''portfolio_value'', Float (portfolio_value metrics)),
            (''total_value'', Float (current_capital s + portfolio_value metrics)),
            (''total_pnl'',
               Float ((current_capital s + portfolio_value metrics) - initial_capital s)),
            (''num_positions'', Count (length (positions s))),
            (''risk_level'', Text (risk_level_value (risk_level metrics))),
            (''var_95'', Float (var_95 metrics)),
            (''max_drawdown'', Float (max_drawdown metrics)),
            (''sharpe_ratio'', Float (sharpe_ratio metrics)),
            (''volatility'', Float (volatility metrics))])"

text \<open>
  The public operations as a datatype, and the manager each leaves behind. The three
  queries assign no attribute of the manager.
\<close>

datatype operation =
    AddPosition string real real nat
  | UpdatePositionPrice string real
  | ClosePosition string
  | CalculatePositionSize real real "real option"
  | CalculatePortfolioMetrics
  | GetPortfolioSummary

fun step :: "RiskManager \<Rightarrow> operation \<Rightarrow> RiskManager" where
  "step s (AddPosition symb qty price now) = add_position symb qty price now s"
| "step s (UpdatePositionPrice symb new_price) = update_position_price symb new_price s"
| "step s (ClosePosition symb) = snd (close_position symb s)"
| "step s (CalculatePositionSize price vol rpt) = s"
| "step s CalculatePortfolioMetrics = s"
| "step s GetPortfolioSummary = s"

definition run :: "RiskManager \<Rightarrow> operation list \<Rightarrow> RiskManager" where
  "run s ops = foldl step s ops"

section \<open>Helper lemmas\<close>

lemma py_int_nonneg: "0 \<le> x \<Longrightarrow> 0 \<le> py_int x"
  by (simp add: py_int_def)

lemma length_update_present:
  "map_of al k = Some old \<Longrightarrow> length (AList.update k v al) = length al"
  by (induction al) (auto split: if_splits)

lemma sum_list_delete:
  "distinct (map fst al) \<Longrightarrow> map_of al k = Some v \<Longrightarrow>
     sum_list (map f (AList.delete k al)) = sum_list (map f al) - (f (k, v) :: real)"
proof (induction al)
  case Nil
  then show ?case by simp
next
  case (Cons a al)
  obtain k' v' where a: "a = (k', v')" by (cases a)
  show ?case
  proof (cases "k' = k")
    case True
    with Cons.prems a have "v' = v" by simp
    moreover from Cons.prems a True have "k \<notin> fst ` set al" by simp
    then have "AList.delete k al = al" by (simp add: delete_id)
    ultimately show ?thesis using a True by simp
  next
    case False
    with Cons a show ?thesis by simp
  qed
qed

lemma drawdown_loop_mono: "drawdown_loop xs peak m = Inr d \<Longrightarrow> m \<le> d"
proof (induction xs arbitrary: peak m)
  case Nil
  then show ?case by simp
next
  case (Cons v xs)
  let ?p = "if v > peak then v else peak"
  let ?dd = "(?p - v) / ?p"
  from Cons.prems have nz: "?p \<noteq> 0"
    by (auto simp: Let_def split: if_splits)
  with Cons.prems have "drawdown_loop xs ?p (if ?dd > m then ?dd else m) = Inr d"
    by (simp add: Let_def)
  from Cons.IH [OF this] show ?case by (simp split: if_splits)
qed

lemma drawdown_loop_bounded:
  "0 < peak \<Longrightarrow> 0 \<le> m \<Longrightarrow> m \<le> 1 \<Longrightarrow> \<forall>v\<in>set xs. 0 \<le> v \<Longrightarrow>
     \<exists>d. drawdown_loop xs peak m = Inr d \<and> m \<le> d \<and> d \<le> 1"
proof (induction xs arbitrary: peak m)
  case Nil
  then show ?case by simp
next
  case (Cons v xs)
  let ?p = "if v > peak then v else peak"
  let ?dd = "(?p - v) / ?p"
  let ?m = "if ?dd > m then ?dd else m"
  from Cons.prems have v: "0 \<le> v" and p: "0 < ?p" by auto
  then have dd1: "?dd \<le> 1" by (simp add: divide_le_eq)
  have m1: "?m \<le> 1" using dd1 Cons.prems(3) by presburger
  have m0: "0 \<le> ?m" using Cons.prems(2) by auto
  have "\<forall>v\<in>set xs. 0 \<le> v" using Cons.prems(4) by simp
  from Cons.IH [OF p m0 m1 this]
  obtain d where d: "drawdown_loop xs ?p ?m = Inr d" "?m \<le> d" "d \<le> 1" by blast
  have "m \<le> ?m" by simp
  with d p show ?case by (auto simp: Let_def)
qed

lemma step_equity_curve: "equity_curve (step s opn) = equity_curve s"
  by (cases opn)
     (simp_all add: add_position_def update_position_price_def close_position_def Let_def
        split: option.splits)

lemma run_equity_curve: "equity_curve (run s ops) = equity_curve s"
  unfolding run_def by (induction ops arbitrary: s) (simp_all add: step_equity_curve)

lemma std_list_single: "std_list [x] = 0"
  by (simp add: std_list_def mean_list_def)

lemma calculate_var_single_zero:
  "0 \<le> c \<Longrightarrow> c \<le> 1 \<Longrightarrow> calculate_var [0] c ''historical'' = Inr 0"
  by (simp add: calculate_var_def percentile_def lerp_sorted_def)

lemma metrics_single:
  assumes "equity_curve s = [c]" "c \<noteq> 0"
  shows "calculate_portfolio_metrics s =
     Inr \<lparr>portfolio_value = sum_list (map (\<lambda>kv. market_value (snd kv)) (positions s)),
          total_exposure = sum_list (map (\<lambda>kv. \<bar>market_value (snd kv)\<bar>) (positions s)),
          var_95 = 0, var_99 = 0, expected_shortfall = 0, max_drawdown = 0,
          sharpe_ratio = 0, volatility = 0, beta = 1, risk_level = LOW\<rparr>"
  using assms
  by (simp add: calculate_portfolio_metrics_def bind_result_def calculate_var_single_zero
      calculate_expected_shortfall_def np_mean_def mean_list_def calculate_max_drawdown_def
      calculate_sharpe_ratio_def std_list_single determine_risk_level_def Let_def)

lemma metrics_single_zero:
  assumes "equity_curve s = [0]"
  shows "calculate_portfolio_metrics s = Inl ZeroDivisionError"
  using assms
  by (simp add: calculate_portfolio_metrics_def bind_result_def calculate_var_single_zero
      calculate_expected_shortfall_def np_mean_def mean_list_def calculate_max_drawdown_def
      Let_def)

lemma sort_nonempty: "a \<noteq> [] \<Longrightarrow> sort a \<noteq> []"
  by (metis length_sort length_0_conv)

lemma floor_index:
  assumes "s \<noteq> []" "0 \<le> t" "t \<le> real (length s - 1)"
  shows "real (nat \<lfloor>t\<rfloor>) \<le> t" "nat \<lfloor>t\<rfloor> \<le> length s - 1" "nat \<lfloor>t\<rfloor> < length s"
    "t - real (nat \<lfloor>t\<rfloor>) \<le> 1"
proof -
  from assms(2) have f0: "0 \<le> \<lfloor>t\<rfloor>" by simp
  then show 1: "real (nat \<lfloor>t\<rfloor>) \<le> t" by simp
  from assms(3) have "\<lfloor>t\<rfloor> \<le> \<lfloor>real (length s - 1)\<rfloor>" by (rule floor_mono)
  then have "\<lfloor>t\<rfloor> \<le> int (length s - 1)" by simp
  with f0 show 2: "nat \<lfloor>t\<rfloor> \<le> length s - 1" by linarith
  with assms(1) show "nat \<lfloor>t\<rfloor> < length s"
    by (cases s) auto
  from f0 have "real (nat \<lfloor>t\<rfloor>) = of_int \<lfloor>t\<rfloor>" by simp
  then show "t - real (nat \<lfloor>t\<rfloor>) \<le> 1" by linarith
qed

lemma lerp_sorted_lower:
  assumes "sorted s" "s \<noteq> []" "0 \<le> t" "t \<le> real (length s - 1)"
  shows "s ! nat \<lfloor>t\<rfloor> \<le> lerp_sorted s t"
proof -
  let ?lo = "nat \<lfloor>t\<rfloor>"
  let ?hi = "min (?lo + 1) (length s - 1)"
  note fi = floor_index [OF assms(2-4)]
  have "?lo \<le> ?hi" using fi(2) by simp
  moreover have "?hi < length s" using assms(2) by (cases s) auto
  ultimately have "s ! ?lo \<le> s ! ?hi" using assms(1) by (simp add: sorted_nth_mono)
  then have "0 \<le> (t - real ?lo) * (s ! ?hi - s ! ?lo)" using fi(1) by simp
  then show ?thesis by (simp add: lerp_sorted_def Let_def)
qed

lemma lerp_sorted_upper:
  assumes "sorted s" "s \<noteq> []" "0 \<le> t" "t \<le> real (length s - 1)"
  shows "lerp_sorted s t \<le> s ! min (nat \<lfloor>t\<rfloor> + 1) (length s - 1)"
proof -
  let ?lo = "nat \<lfloor>t\<rfloor>"
  let ?hi = "min (?lo + 1) (length s - 1)"
  note fi = floor_index [OF assms(2-4)]
  have "?lo \<le> ?hi" using fi(2) by simp
  moreover have "?hi < length s" using assms(2) by (cases s) auto
  ultimately have d: "0 \<le> s ! ?hi - s ! ?lo" using assms(1) by (simp add: sorted_nth_mono)
  have "(t - real ?lo) * (s ! ?hi - s ! ?lo) \<le> 1 * (s ! ?hi - s ! ?lo)"
    using fi(4) d by (rule mult_right_mono)
  then show ?thesis by (simp add: lerp_sorted_def Let_def)
qed

lemma lerp_sorted_mono:
  assumes "sorted s" "s \<noteq> []" "0 \<le> t1" "t1 \<le> t2" "t2 \<le> real (length s - 1)"
  shows "lerp_sorted s t1 \<le> lerp_sorted s t2"
proof (cases "nat \<lfloor>t1\<rfloor> = nat \<lfloor>t2\<rfloor>")
  case True
  let ?lo = "nat \<lfloor>t2\<rfloor>"
  let ?hi = "min (?lo + 1) (length s - 1)"
  have t2: "0 \<le> t2" using assms by simp
  note fi = floor_index [OF assms(2) t2 assms(5)]
  have "?lo \<le> ?hi" using fi(2) by simp
  moreover have "?hi < length s" using assms(2) by (cases s) auto
  ultimately have d: "0 \<le> s ! ?hi - s ! ?lo" using assms(1) by (simp add: sorted_nth_mono)
  have "t1 - real ?lo \<le> t2 - real ?lo" using assms(4) by simp
  then have "(t1 - real ?lo) * (s ! ?hi - s ! ?lo) \<le> (t2 - real ?lo) * (s ! ?hi - s ! ?lo)"
    using d by (rule mult_right_mono)
  with True show ?thesis by (simp add: lerp_sorted_def Let_def)
next
  case False
  have t2: "0 \<le> t2" and t1: "t1 \<le> real (length s - 1)" using assms by simp_all
  note f1 = floor_index [OF assms(2,3) t1]
  note f2 = floor_index [OF assms(2) t2 assms(5)]
  have "\<lfloor>t1\<rfloor> \<le> \<lfloor>t2\<rfloor>" using assms(4) by (rule floor_mono)
  with False have lt: "nat \<lfloor>t1\<rfloor> < nat \<lfloor>t2\<rfloor>" by linarith
  then have "min (nat \<lfloor>t1\<rfloor> + 1) (length s - 1) \<le> nat \<lfloor>t2\<rfloor>" by arith
  then have "s ! min (nat \<lfloor>t1\<rfloor> + 1) (length s - 1) \<le> s ! nat \<lfloor>t2\<rfloor>"
    using assms(1) f2(3) by (simp add: sorted_nth_mono)
  moreover have "lerp_sorted s t1 \<le> s ! min (nat \<lfloor>t1\<rfloor> + 1) (length s - 1)"
    using assms(1,2,3) t1 by (rule lerp_sorted_upper)
  moreover have "s ! nat \<lfloor>t2\<rfloor> \<le> lerp_sorted s t2"
    using assms(1,2) t2 assms(5) by (rule lerp_sorted_lower)
  ultimately show ?thesis by linarith
qed

lemma virtual_index_range:
  assumes "0 \<le> q" "q \<le> 100"
  shows "0 \<le> q / 100 * real n" "q / 100 * real n \<le> real n"
proof -
  show "0 \<le> q / 100 * real n" using assms(1) by simp
  have "q / 100 \<le> 1" using assms(2) by simp
  then have "q / 100 * real n \<le> 1 * real n" by (rule mult_right_mono) simp
  then show "q / 100 * real n \<le> real n" by simp
qed

lemma percentile_mono:
  assumes "a \<noteq> []" "0 \<le> q1" "q1 \<le> q2" "q2 \<le> 100"
  shows "\<exists>v1 v2. percentile a q1 = Inr v1 \<and> percentile a q2 = Inr v2 \<and> v1 \<le> v2"
proof -
  let ?n = "length a - 1"
  let ?s = "sort a"
  have s: "sorted ?s" "?s \<noteq> []" "length ?s - 1 = ?n"
    using assms(1) by (simp_all add: sort_nonempty)
  have q: "0 \<le> q2" "q1 \<le> 100" using assms by simp_all
  have "q1 / 100 \<le> q2 / 100" using assms(3) by simp
  then have le: "q1 / 100 * real ?n \<le> q2 / 100 * real ?n" by (rule mult_right_mono) simp
  have "lerp_sorted ?s (q1 / 100 * real ?n) \<le> lerp_sorted ?s (q2 / 100 * real ?n)"
    using s(1,2) virtual_index_range(1) [OF assms(2) q(2)] le
      virtual_index_range(2) [OF q(1) assms(4), of ?n]
    by (intro lerp_sorted_mono) (simp_all add: s(3))
  then show ?thesis using assms q by (simp add: percentile_def)
qed

lemma percentile_lower:
  assumes "a \<noteq> []" "0 \<le> q" "q \<le> 100"
  shows "\<exists>v. percentile a q = Inr v \<and> Min (set a) \<le> v \<and> (\<exists>r\<in>set a. r \<le> v)"
proof -
  let ?n = "length a - 1"
  let ?s = "sort a"
  let ?t = "q / 100 * real ?n"
  have s: "sorted ?s" "?s \<noteq> []" "length ?s - 1 = ?n"
    using assms(1) by (simp_all add: sort_nonempty)
  have t: "0 \<le> ?t" "?t \<le> real (length ?s - 1)"
    using virtual_index_range [OF assms(2,3), of ?n] by (simp_all add: s(3))
  have lo: "?s ! nat \<lfloor>?t\<rfloor> \<le> lerp_sorted ?s ?t"
    using s(1,2) t by (rule lerp_sorted_lower)
  have "nat \<lfloor>?t\<rfloor> < length ?s" using s(2) t by (rule floor_index(3))
  then have "?s ! nat \<lfloor>?t\<rfloor> \<in> set ?s" by (rule nth_mem)
  then have mem: "?s ! nat \<lfloor>?t\<rfloor> \<in> set a" by simp
  then have mn: "Min (set a) \<le> ?s ! nat \<lfloor>?t\<rfloor>" by simp
  have p: "percentile a q = Inr (lerp_sorted ?s ?t)"
    using assms by (simp add: percentile_def)
  have "Min (set a) \<le> lerp_sorted ?s ?t" using mn lo by linarith
  moreover have "\<exists>r\<in>set a. r \<le> lerp_sorted ?s ?t" using mem lo by blast
  ultimately show ?thesis using p by blast
qed

section \<open>The equity curve under ledger mutations\<close>

text \<open>
  C1 (as stated, refuted): after \<^verbatim>\<open>add_position\<close> the equity curve is not longer than
  before. Manager with capital 100000; booking AAPL 100 @ 150 leaves the curve at
  length 1.
\<close>

theorem equity_curve_not_extended:
  "equity_curve (add_position ''AAPL'' 100 150 0 (init_manager 100000 0.1 0.02 0.05)) =
     [100000] \<and>
   \<not> length (equity_curve (init_manager 100000 0.1 0.02 0.05)) <
      length (equity_curve
        (add_position ''AAPL'' 100 150 0 (init_manager 100000 0.1 0.02 0.05)))"
  by (simp add: add_position_def init_manager_def)

text \<open>
  C1 (amended): none of the three ledger mutations \<^verbatim>\<open>add_position\<close>,
  \<^verbatim>\<open>update_position_price\<close> and \<^verbatim>\<open>close_position\<close> touches the equity curve: in every
  state the curve after the call is the curve before it.
\<close>

theorem equity_curve_unchanged_by_mutations:
  "equity_curve (add_position symb qty price now s) = equity_curve s \<and>
   equity_curve (update_position_price symb new_price s) = equity_curve s \<and>
   equity_curve (snd (close_position symb s)) = equity_curve s"
  by (simp add: add_position_def update_position_price_def close_position_def Let_def
      split: option.splits)

text \<open>
  C2: after every finite sequence of public operations on a manager created with
  initial capital \<open>c\<close>, the equity curve is still the one-element sequence \<open>[c]\<close>.
  Consequently every snapshot \<^verbatim>\<open>calculate_portfolio_metrics\<close> returns has
  max_drawdown, var_95, var_99, expected_shortfall, sharpe_ratio and volatility 0 and
  risk level LOW, whatever positions are held; and a snapshot is returned whenever the
  initial capital is not 0 (with 0 the drawdown quotient raises).
\<close>

theorem equity_curve_stays_initial:
  "equity_curve (run (init_manager c mps mpr slp) ops) = [c] \<and>
   (\<forall>m. calculate_portfolio_metrics (run (init_manager c mps mpr slp) ops) = Inr m \<longrightarrow>
      max_drawdown m = 0 \<and> var_95 m = 0 \<and> var_99 m = 0 \<and> expected_shortfall m = 0 \<and>
      sharpe_ratio m = 0 \<and> volatility m = 0 \<and> risk_level m = LOW) \<and>
   (c \<noteq> 0 \<longrightarrow>
      (\<exists>m. calculate_portfolio_metrics (run (init_manager c mps mpr slp) ops) = Inr m))"
proof -
  let ?s = "run (init_manager c mps mpr slp) ops"
  have e: "equity_curve ?s = [c]"
    by (simp add: run_equity_curve init_manager_def)
  show ?thesis
  proof (cases "c = 0")
    case True
    with e metrics_single_zero [of ?s] show ?thesis by simp
  next
    case False
    with e metrics_single [of ?s c] show ?thesis by simp
  qed
qed

theorem equity_curve_stays_initial_witness:
  "(100000 :: real) \<noteq> 0 \<and>
   map fst (positions (run (init_manager 100000 0.1 0.02 0.05)
     [AddPosition ''AAPL'' 100 150 0, AddPosition ''GOOGL'' 50 2800 1,
      UpdatePositionPrice ''AAPL'' 155, UpdatePositionPrice ''GOOGL'' 2750,
      GetPortfolioSummary])) = [''AAPL'', ''GOOGL''] \<and>
   equity_curve (run (init_manager 100000 0.1 0.02 0.05)
     [AddPosition ''AAPL'' 100 150 0, AddPosition ''GOOGL'' 50 2800 1,
      UpdatePositionPrice ''AAPL'' 155, UpdatePositionPrice ''GOOGL'' 2750,
      GetPortfolioSummary]) = [100000] \<and>
   (\<exists>m. calculate_portfolio_metrics (run (init_manager 100000 0.1 0.02 0.05)
       [AddPosition ''AAPL'' 100 150 0, AddPosition ''GOOGL'' 50 2800 1,
        UpdatePositionPrice ''AAPL'' 155, UpdatePositionPrice ''GOOGL'' 2750,
        GetPortfolioSummary]) = Inr m \<and>
      max_drawdown m = 0 \<and> var_95 m = 0 \<and> var_99 m = 0 \<and> expected_shortfall m = 0 \<and>
      sharpe_ratio m = 0 \<and> volatility m = 0 \<and> risk_level m = LOW)"
proof -
  have p: "map fst (positions (run (init_manager 100000 0.1 0.02 0.05)
     [AddPosition ''AAPL'' 100 150 0, AddPosition ''GOOGL'' 50 2800 1,
      UpdatePositionPrice ''AAPL'' 155, UpdatePositionPrice ''GOOGL'' 2750,
      GetPortfolioSummary])) = [''AAPL'', ''GOOGL'']"
    by (simp add: run_def add_position_def update_position_price_def init_manager_def)
  show ?thesis
    using p equity_curve_stays_initial [of 100000 "0.1" "0.02" "0.05"
      "[AddPosition ''AAPL'' 100 150 0, AddPosition ''GOOGL'' 50 2800 1,
        UpdatePositionPrice ''AAPL'' 155, UpdatePositionPrice ''GOOGL'' 2750,
        GetPortfolioSummary]"]
    by auto
qed

section \<open>Parametric VaR and the confidence level\<close>

text \<open>
  C3 (the code at the failing input): with method \<^verbatim>\<open>parametric\<close>, a non-empty sample
  and any confidence level other than 0.95, \<^verbatim>\<open>calculate_var\<close> raises nothing and
  returns mean - 2.326 * std, the value it returns for confidence 0.99.
\<close>

theorem calculate_var_parametric_defaults:
  "c \<noteq> 0.95 \<Longrightarrow>
     calculate_var (r # rs) c ''parametric'' =
       Inr (mean_list (r # rs) - 2.326 * std_list (r # rs))"
  by (simp add: calculate_var_def np_mean_def np_std_def bind_result_def)

theorem calculate_var_parametric_defaults_witness:
  "(0.9 :: real) \<noteq> 0.95 \<and>
   calculate_var [0.01, - 0.02, 0.03] 0.9 ''parametric'' =
     Inr (mean_list [0.01, - 0.02, 0.03] - 2.326 * std_list [0.01, - 0.02, 0.03])"
  using calculate_var_parametric_defaults [of "0.9" "0.01" "[- 0.02, 0.03]"]
  by simp

section \<open>Position sizing\<close>

text \<open>
  C4 (as stated, refuted): manager with capital 100, after booking 2 @ 100 the current
  capital is -100, and \<^verbatim>\<open>calculate_position_size(10, 0.2)\<close> returns -4.
\<close>

theorem calculate_position_size_negative:
  "current_capital (add_position ''A'' 2 100 0 (init_manager 100 0.1 0.02 0.05)) = - 100 \<and>
   calculate_position_size (add_position ''A'' 2 100 0 (init_manager 100 0.1 0.02 0.05))
     10 0.2 None = Inr (- 4)"
  by (simp add: calculate_position_size_def add_position_def init_manager_def py_int_def)

text \<open>
  C4 (amended): when the current capital is not negative, the price is positive, and
  \<^verbatim>\<open>max_position_size\<close> and the risk per trade in effect are not negative,
  \<^verbatim>\<open>calculate_position_size\<close> returns an integer share count that is not negative.
\<close>

theorem calculate_position_size_nonneg:
  "0 \<le> current_capital s \<Longrightarrow> 0 < price \<Longrightarrow> 0 \<le> max_position_size s \<Longrightarrow>
   0 \<le> (case rpt of None \<Rightarrow> max_portfolio_risk s | Some r \<Rightarrow> r) \<Longrightarrow>
     \<exists>n. calculate_position_size s price vol rpt = Inr n \<and> 0 \<le> n"
  by (auto simp add: calculate_position_size_def Let_def intro!: py_int_nonneg)

theorem calculate_position_size_nonneg_witness:
  "0 \<le> current_capital (add_position ''AAPL'' 100 150 0 (init_manager 100000 0.1 0.02 0.05)) \<and>
   (0 :: real) < 180 \<and>
   0 \<le> max_position_size (add_position ''AAPL'' 100 150 0 (init_manager 100000 0.1 0.02 0.05)) \<and>
   0 \<le> max_portfolio_risk (add_position ''AAPL'' 100 150 0 (init_manager 100000 0.1 0.02 0.05)) \<and>
   (\<exists>n. calculate_position_size
          (add_position ''AAPL'' 100 150 0 (init_manager 100000 0.1 0.02 0.05))
          180 0.28 None = Inr n \<and> 0 \<le> n)"
  using calculate_position_size_nonneg
    [of "add_position ''AAPL'' 100 150 0 (init_manager 100000 0.1 0.02 0.05)" 180 None "0.28"]
  by (simp add: add_position_def init_manager_def)

section \<open>Profit and loss in percent\<close>

text \<open>
  C5 (as stated, refuted): a position entered at 100 and now at 105, a 5% gain, has
  \<^verbatim>\<open>pnl_percent\<close> 5, not 105 / 100 - 1 = 0.05.
\<close>

theorem pnl_percent_not_fraction:
  "pnl_percent \<lparr>symbol = ''AAPL'', quantity = 10, entry_price = 100, current_price = 105,
      timestamp = 0\<rparr> = Inr 5 \<and>
   pnl_percent \<lparr>symbol = ''AAPL'', quantity = 10, entry_price = 100, current_price = 105,
      timestamp = 0\<rparr> \<noteq> Inr (105 / 100 - 1)"
  by (simp add: pnl_percent_def)

text \<open>
  C5 (amended): for every position with a nonzero entry price, the derived P&L percent
  equals current price divided by entry price, minus 1, times 100: it is expressed in
  percent, so a gain of the fraction \<open>g\<close> of the entry price yields \<open>100 * g\<close>.
\<close>

theorem pnl_percent_times_100:
  "entry_price pos \<noteq> 0 \<Longrightarrow> current_price pos = entry_price pos * (1 + g) \<Longrightarrow>
     pnl_percent pos = Inr ((current_price pos / entry_price pos - 1) * 100) \<and>
     pnl_percent pos = Inr (100 * g)"
  by (simp add: pnl_percent_def)

theorem pnl_percent_times_100_witness:
  "entry_price \<lparr>symbol = ''AAPL'', quantity = 10, entry_price = 100, current_price = 105,
      timestamp = 0\<rparr> \<noteq> 0 \<and>
   current_price \<lparr>symbol = ''AAPL'', quantity = 10, entry_price = 100, current_price = 105,
      timestamp = 0\<rparr> = 100 * (1 + 0.05) \<and>
   pnl_percent \<lparr>symbol = ''AAPL'', quantity = 10, entry_price = 100, current_price = 105,
      timestamp = 0\<rparr> = Inr (100 * 0.05)"
  using pnl_percent_times_100
    [of "\<lparr>symbol = ''AAPL'', quantity = 10, entry_price = 100, current_price = 105,
          timestamp = 0\<rparr>" "0.05"]
  by simp

section \<open>Maximum drawdown\<close>

text \<open>
  C6 (as stated, refuted): on the curve 100, -50 (first element and running peak
  nonzero) \<^verbatim>\<open>calculate_max_drawdown\<close> returns 1.5, which exceeds 1.
\<close>

theorem calculate_max_drawdown_above_one:
  "calculate_max_drawdown [100, - 50] = Inr 1.5"
  by (simp add: calculate_max_drawdown_def)

text \<open>
  C6 (amended): whenever \<^verbatim>\<open>calculate_max_drawdown\<close> returns a value it is greater than
  or equal to 0; and for every non-empty equity curve whose first element is positive
  and whose entries are all non-negative it does return a value, which is greater than
  or equal to 0 and less than or equal to 1.
\<close>

theorem calculate_max_drawdown_bounds:
  "(\<forall>d. calculate_max_drawdown curve = Inr d \<longrightarrow> 0 \<le> d) \<and>
   (curve \<noteq> [] \<and> 0 < hd curve \<and> (\<forall>v\<in>set curve. 0 \<le> v) \<longrightarrow>
      (\<exists>d. calculate_max_drawdown curve = Inr d \<and> 0 \<le> d \<and> d \<le> 1))"
proof (intro conjI allI impI)
  fix d assume "calculate_max_drawdown curve = Inr d"
  then obtain x where "drawdown_loop curve x 0 = Inr d"
    by (cases curve) (simp_all add: calculate_max_drawdown_def del: drawdown_loop.simps)
  then show "0 \<le> d" by (rule drawdown_loop_mono)
next
  assume a: "curve \<noteq> [] \<and> 0 < hd curve \<and> (\<forall>v\<in>set curve. 0 \<le> v)"
  then obtain x xs where c: "curve = x # xs" by (cases curve) auto
  with a have "0 < x" "\<forall>v\<in>set curve. 0 \<le> v" by auto
  from drawdown_loop_bounded [OF this(1) _ _ this(2), of 0]
  show "\<exists>d. calculate_max_drawdown curve = Inr d \<and> 0 \<le> d \<and> d \<le> 1"
    using c by (simp add: calculate_max_drawdown_def)
qed

theorem calculate_max_drawdown_bounds_witness:
  "[100, 50, 120, 60 :: real] \<noteq> [] \<and> 0 < hd [100, 50, 120, 60 :: real] \<and>
   list_all (\<lambda>v. 0 \<le> v) [100, 50, 120, 60 :: real] \<and>
   calculate_max_drawdown [100, 50, 120, 60] = Inr 0.5 \<and>
   (\<exists>d. calculate_max_drawdown [100, 50, 120, 60] = Inr d \<and> 0 \<le> d \<and> d \<le> 1)"
  using calculate_max_drawdown_bounds [of "[100, 50, 120, 60]"]
  by (simp add: calculate_max_drawdown_def)

section \<open>Historical VaR and expected shortfall\<close>

text \<open>
  C7: for every non-empty return sample, historical VaR at confidence 0.99 and at
  confidence 0.95 are both returned, and the first is less than or equal to the second.
\<close>

theorem historical_var_99_le_95:
  "returns \<noteq> [] \<Longrightarrow>
     \<exists>v99 v95. calculate_var returns 0.99 ''historical'' = Inr v99 \<and>
               calculate_var returns 0.95 ''historical'' = Inr v95 \<and> v99 \<le> v95"
  using percentile_mono [of returns 1 5] by (simp add: calculate_var_def)

theorem historical_var_99_le_95_witness:
  "[0.01, - 0.02, 0.03, - 0.05, 0.02 :: real] \<noteq> [] \<and>
   calculate_var [0.01, - 0.02, 0.03, - 0.05, 0.02] 0.99 ''historical'' = Inr (- 0.0488) \<and>
   calculate_var [0.01, - 0.02, 0.03, - 0.05, 0.02] 0.95 ''historical'' = Inr (- 0.044) \<and>
   (- 0.0488 :: real) \<le> - 0.044"
  using historical_var_99_le_95 [of "[0.01, - 0.02, 0.03, - 0.05, 0.02]"]
  by (simp add: calculate_var_def percentile_def lerp_sorted_def)

text \<open>
  C10: for every non-empty returns sequence, whenever the historical VaR is returned it
  is greater than or equal to the minimum of the sequence, so the returns at or below it
  are a non-empty list and \<^verbatim>\<open>calculate_expected_shortfall\<close> returns their mean: its
  result is never the undefined mean of an empty tail. The VaR is returned for every
  confidence level in \<open>[0, 1]\<close> (outside it \<^verbatim>\<open>np.percentile\<close> raises ValueError).
\<close>

theorem expected_shortfall_tail_nonempty:
  "returns \<noteq> [] \<Longrightarrow>
     calculate_expected_shortfall returns c \<noteq> Inl NonFinite \<and>
     (\<forall>v. calculate_var returns c ''historical'' = Inr v \<longrightarrow>
        Min (set returns) \<le> v \<and> filter (\<lambda>r. r \<le> v) returns \<noteq> [] \<and>
        calculate_expected_shortfall returns c =
          Inr (mean_list (filter (\<lambda>r. r \<le> v) returns))) \<and>
     (0 \<le> c \<and> c \<le> 1 \<longrightarrow> (\<exists>v. calculate_var returns c ''historical'' = Inr v))"
proof (cases "0 \<le> c \<and> c \<le> 1")
  case True
  assume ne: "returns \<noteq> []"
  from True have "0 \<le> (1 - c) * 100" "(1 - c) * 100 \<le> 100" by simp_all
  from percentile_lower [OF ne this]
  obtain v where v: "percentile returns ((1 - c) * 100) = Inr v" "Min (set returns) \<le> v"
    "\<exists>r\<in>set returns. r \<le> v" by blast
  from v(3) have "filter (\<lambda>r. r \<le> v) returns \<noteq> []" by (simp add: filter_empty_conv)
  with v show ?thesis
    by (simp add: calculate_expected_shortfall_def calculate_var_def bind_result_def np_mean_def)
next
  case False
  then have "(1 - c) * 100 < 0 \<or> 100 < (1 - c) * 100" by auto
  then have "percentile returns ((1 - c) * 100) = Inl ValueError" by (simp add: percentile_def)
  with False show ?thesis
    by (simp add: calculate_expected_shortfall_def calculate_var_def bind_result_def)
qed

theorem expected_shortfall_tail_nonempty_witness:
  "[0.01, - 0.02, 0.03, - 0.05, 0.02 :: real] \<noteq> [] \<and> (0 :: real) \<le> 0.95 \<and>
   (0.95 :: real) \<le> 1 \<and>
   calculate_var [0.01, - 0.02, 0.03, - 0.05, 0.02] 0.95 ''historical'' = Inr (- 0.044) \<and>
   filter (\<lambda>r. r \<le> - 0.044) [0.01, - 0.02, 0.03, - 0.05, 0.02 :: real] = [- 0.05] \<and>
   calculate_expected_shortfall [0.01, - 0.02, 0.03, - 0.05, 0.02] 0.95 = Inr (- 0.05)"
  using expected_shortfall_tail_nonempty [of "[0.01, - 0.02, 0.03, - 0.05, 0.02]" "0.95"]
  by (simp add: calculate_var_def percentile_def lerp_sorted_def
      calculate_expected_shortfall_def bind_result_def np_mean_def mean_list_def)

section \<open>Closing a position\<close>

text \<open>
  C8: \<^verbatim>\<open>close_position\<close> on an absent symbol returns 0 and leaves the whole manager as
  it was. On a held symbol (the initial capital being nonzero, as the configuration
  requires) it returns the realized P&L, credits the current capital with the
  position's market value, appends the realized P&L divided by the initial capital to
  the return history, and removes the position: the symbol is no longer held and the
  sum of market values (the keys of the dictionary being distinct) drops by the
  position's market value.
\<close>

theorem close_position_effect:
  "(map_of (positions s) symb = None \<longrightarrow> close_position symb s = (Inr 0, s)) \<and>
   (\<forall>pos. map_of (positions s) symb = Some pos \<and> initial_capital s \<noteq> 0 \<longrightarrow>
      fst (close_position symb s) = Inr (pnl pos) \<and>
      current_capital (snd (close_position symb s)) = current_capital s + market_value pos \<and>
      returns_history (snd (close_position symb s)) =
        returns_history s @ [pnl pos / initial_capital s] \<and>
      positions (snd (close_position symb s)) = AList.delete symb (positions s) \<and>
      map_of (positions (snd (close_position symb s))) symb = None \<and>
      (distinct (map fst (positions s)) \<longrightarrow>
         sum_list (map (\<lambda>kv. market_value (snd kv)) (positions (snd (close_position symb s)))) =
         sum_list (map (\<lambda>kv. market_value (snd kv)) (positions s)) - market_value pos))"
  by (auto simp add: close_position_def Let_def delete_conv' sum_list_delete)

theorem close_position_effect_witness:
  "map_of (positions (init_manager 100000 0.1 0.02 0.05)) ''MSFT'' = None \<and>
   close_position ''MSFT'' (init_manager 100000 0.1 0.02 0.05) =
     (Inr 0, init_manager 100000 0.1 0.02 0.05) \<and>
   map_of (positions (update_position_price ''AAPL'' 155
       (add_position ''AAPL'' 100 150 0 (init_manager 100000 0.1 0.02 0.05)))) ''AAPL'' =
     Some \<lparr>symbol = ''AAPL'', quantity = 100, entry_price = 150, current_price = 155,
           timestamp = 0\<rparr> \<and>
   initial_capital (update_position_price ''AAPL'' 155
       (add_position ''AAPL'' 100 150 0 (init_manager 100000 0.1 0.02 0.05))) \<noteq> 0 \<and>
   fst (close_position ''AAPL'' (update_position_price ''AAPL'' 155
       (add_position ''AAPL'' 100 150 0 (init_manager 100000 0.1 0.02 0.05)))) = Inr 500 \<and>
   current_capital (snd (close_position ''AAPL'' (update_position_price ''AAPL'' 155
       (add_position ''AAPL'' 100 150 0 (init_manager 100000 0.1 0.02 0.05))))) = 100500 \<and>
   returns_history (snd (close_position ''AAPL'' (update_position_price ''AAPL'' 155
       (add_position ''AAPL'' 100 150 0 (init_manager 100000 0.1 0.02 0.05))))) = [0.005] \<and>
   positions (snd (close_position ''AAPL'' (update_position_price ''AAPL'' 155
       (add_position ''AAPL'' 100 150 0 (init_manager 100000 0.1 0.02 0.05))))) = []"
  using close_position_effect [of "init_manager 100000 0.1 0.02 0.05" "''MSFT''"]
    close_position_effect
      [of "update_position_price ''AAPL'' 155
             (add_position ''AAPL'' 100 150 0 (init_manager 100000 0.1 0.02 0.05))" "''AAPL''"]
  by (simp add: add_position_def update_position_price_def init_manager_def pnl_def
      market_value_def)

section \<open>Adding a position for a held symbol\<close>

text \<open>
  C9: when \<^verbatim>\<open>add_position\<close> is called for a symbol that is already held, the old
  position is overwritten in place by the new booking, and the current capital after
  the call is the capital before minus quantity times price: nothing is credited back
  for the overwritten position, and a second identical add debits the capital again.
\<close>

theorem add_position_overwrites_and_debits:
  "map_of (positions s) symb = Some old \<Longrightarrow>
     current_capital (add_position symb qty price now s) = current_capital s - qty * price \<and>
     map_of (positions (add_position symb qty price now s)) symb =
       Some \<lparr>symbol = symb, quantity = qty, entry_price = price, current_price = price,
             timestamp = now\<rparr> \<and>
     length (positions (add_position symb qty price now s)) = length (positions s) \<and>
     current_capital (add_position symb qty price now (add_position symb qty price now s)) =
       current_capital s - 2 * (qty * price)"
  by (auto simp add: add_position_def update_conv' length_update_present)

theorem add_position_overwrites_and_debits_witness:
  "map_of (positions (add_position ''AAPL'' 100 150 0 (init_manager 100000 0.1 0.02 0.05)))
     ''AAPL'' =
     Some \<lparr>symbol = ''AAPL'', quantity = 100, entry_price = 150, current_price = 150,
           timestamp = 0\<rparr> \<and>
   current_capital (add_position ''AAPL'' 50 160 1
       (add_position ''AAPL'' 100 150 0 (init_manager 100000 0.1 0.02 0.05))) = 77000 \<and>
   positions (add_position ''AAPL'' 50 160 1
       (add_position ''AAPL'' 100 150 0 (init_manager 100000 0.1 0.02 0.05))) =
     [(''AAPL'', \<lparr>symbol = ''AAPL'', quantity = 50, entry_price = 160, current_price = 160,
                  timestamp = 1\<rparr>)]"
  using add_position_overwrites_and_debits
    [of "add_position ''AAPL'' 100 150 0 (init_manager 100000 0.1 0.02 0.05)" "''AAPL''"
        "\<lparr>symbol = ''AAPL'', quantity = 100, entry_price = 150, current_price = 150,
          timestamp = 0\<rparr>" 50 160 1]
  by (simp add: add_position_def init_manager_def)

end
